theory Spec2Isabelle
  imports Complex_Main "HOL-Library.Char_ord" "HOL-Library.List_Lexorder"
begin

section \<open>The achievement catalog (backend/models.py)\<close>

text \<open>
  A row of the \<^verbatim>\<open>Achievement\<close> table. The JSON columns \<^verbatim>\<open>tiers\<close> and
  \<^verbatim>\<open>rewards\<close> are never read by the view and are kept as lists of opaque strings;
  \<^verbatim>\<open>flags\<close> is a JSON list of tag strings.
\<close>

record achievement =
  gw2_id :: int
  name :: string
  description :: string
  requirement :: string
  category_name :: string
  group_name :: string
  flags :: "string list"
  tiers :: "string list"
  rewards :: "string list"
  is_legendary :: bool
  community_priority :: bool

text \<open>
  \<^verbatim>\<open>class Meta: ordering = ['name']\<close>: every query on \<^verbatim>\<open>Achievement.objects\<close>
  that states no order of its own returns its rows by ascending name. The table is a list
  of rows in storage order; names are compared as byte strings, and rows of equal name keep
  their storage order.
\<close>

definition objects :: "achievement list \<Rightarrow> achievement list" where
  "objects tbl = sort_key name tbl"

text \<open>\<^verbatim>\<open>Achievement.objects.filter(gw2_id__in=ids)\<close>\<close>

definition filter_gw2_id_in :: "achievement list \<Rightarrow> int list \<Rightarrow> achievement list" where
  "filter_gw2_id_in tbl ids = filter (\<lambda>ach. gw2_id ach \<in> set ids) (objects tbl)"

text \<open>\<^verbatim>\<open>Achievement.objects.exclude(gw2_id__in=ids)\<close>\<close>

definition exclude_gw2_id_in :: "achievement list \<Rightarrow> int list \<Rightarrow> achievement list" where
  "exclude_gw2_id_in tbl ids = filter (\<lambda>ach. gw2_id ach \<notin> set ids) (objects tbl)"

section \<open>The progress snapshot\<close>

text \<open>
  One object of the list that \<^verbatim>\<open>/v2/account/achievements\<close> returns. The view reads
  \<^verbatim>\<open>a['id']\<close> unconditionally, so the key \<^verbatim>\<open>id\<close> is part of the input type; it
  reads \<^verbatim>\<open>current\<close>, \<^verbatim>\<open>max\<close> and \<^verbatim>\<open>done\<close> with \<^verbatim>\<open>.get\<close>, so each of
  these keys may be absent (\<open>None\<close>). The key \<^verbatim>\<open>bits\<close> is never read. Counters are
  Python integers, hence unbounded.
\<close>

record progress_rec =
  p_id :: int
  p_current :: "int option"
  p_max :: "int option"
  p_done :: "bool option"

text \<open>\<^verbatim>\<open>d.get(key, default)\<close> on an optional field.\<close>

definition get_default :: "'a option \<Rightarrow> 'a \<Rightarrow> 'a" where
  "get_default v d = (case v of None \<Rightarrow> d | Some x \<Rightarrow> x)"

text \<open>The truth value of \<^verbatim>\<open>a.get('done')\<close>: an absent key gives \<^verbatim>\<open>None\<close>, which is false.\<close>

definition is_done :: "progress_rec \<Rightarrow> bool" where
  "is_done a = (p_done a = Some True)"

text \<open>\<^verbatim>\<open>completed_ids = [a['id'] for a in user_achievements if a.get('done')]\<close>\<close>

definition completed_ids :: "progress_rec list \<Rightarrow> int list" where
  "completed_ids user_achievements = map p_id (filter is_done user_achievements)"

text \<open>
  \<^verbatim>\<open>in_progress = {a['id']: a for a in user_achievements if not a.get('done')}\<close>:
  the dictionary is filled from left to right, so a later record replaces an earlier one
  of the same id.
\<close>

definition in_progress :: "progress_rec list \<Rightarrow> (int \<rightharpoonup> progress_rec)" where
  "in_progress user_achievements =
     foldl (\<lambda>m a. m(p_id a \<mapsto> a)) Map.empty (filter (\<lambda>a. \<not> is_done a) user_achievements)"

section \<open>Affinity and score\<close>

text \<open>
  \<^verbatim>\<open>for ach in history:
    affinity_map[ach.category_name] = affinity_map.get(ach.category_name, 0) + 1\<close>
\<close>

definition affinity_map :: "achievement list \<Rightarrow> (string \<rightharpoonup> int)" where
  "affinity_map history =
     foldl (\<lambda>m ach. m(category_name ach \<mapsto> get_default (m (category_name ach)) 0 + 1))
       Map.empty history"

text \<open>
  \<^verbatim>\<open>score = affinity_map.get(ach.category_name, 0)
  if ach.community_priority: score += 10\<close>
\<close>

definition score :: "(string \<rightharpoonup> int) \<Rightarrow> achievement \<Rightarrow> int" where
  "score am ach =
     (let score = get_default (am (category_name ach)) 0
      in if community_priority ach then score + 10 else score)"

section \<open>The bucketing loop\<close>

record ach_data =
  ad_id :: int
  ad_name :: string
  ad_requirement :: string
  ad_category :: string
  ad_progress :: int
  ad_max :: int

record recommendations =
  nearly_complete :: "ach_data list"
  legendary :: "ach_data list"
  pvp :: "ach_data list"
  story :: "ach_data list"
  exploration :: "ach_data list"

datatype py_error = ZeroDivisionError | RequestError

text \<open>
  The dictionary \<^verbatim>\<open>ach_data\<close> of the loop body; \<open>progress_obj\<close> is
  \<^verbatim>\<open>in_progress.get(ach.gw2_id)\<close>. A record of \<open>in_progress\<close> holds at least the key
  \<^verbatim>\<open>id\<close>, so it is a non-empty dictionary and counts as true.
\<close>

definition mk_ach_data :: "progress_rec option \<Rightarrow> achievement \<Rightarrow> ach_data" where
  "mk_ach_data progress_obj ach =
     \<lparr> ad_id = gw2_id ach,
       ad_name = name ach,
       ad_requirement = requirement ach,
       ad_category = category_name ach,
       ad_progress = (case progress_obj of None \<Rightarrow> 0 | Some p \<Rightarrow> get_default (p_current p) 0),
       ad_max = (case progress_obj of None \<Rightarrow> 1 | Some p \<Rightarrow> get_default (p_max p) 0) \<rparr>"

text \<open>
  \<^verbatim>\<open>progress_obj and (progress_obj.get('current', 0) / progress_obj.get('max', 1)) > 0.7\<close>,
  with \<open>ratio_current\<close> and \<open>ratio_max\<close> for the two operands of the division.
  The division is Python's true division, which raises \<^verbatim>\<open>ZeroDivisionError\<close> on a zero
  divisor. The quotient is taken here in exact rational arithmetic; Python rounds it to a
  double and compares with the double nearest to 0.7, which decides the comparison the same
  way as long as the counters stay below \<open>2^53\<close>.
\<close>

definition ratio_current :: "progress_rec \<Rightarrow> int" where
  "ratio_current p = get_default (p_current p) 0"

definition ratio_max :: "progress_rec \<Rightarrow> int" where
  "ratio_max p = get_default (p_max p) 1"

definition ratio_check :: "progress_rec option \<Rightarrow> py_error + bool" where
  "ratio_check progress_obj =
     (case progress_obj of
        None \<Rightarrow> Inr False
      | Some p \<Rightarrow>
          if ratio_max p = 0 then Inl ZeroDivisionError
          else Inr (rat_of_int (ratio_current p) / rat_of_int (ratio_max p) > 7 / 10))"

text \<open>Python's \<^verbatim>\<open>needle in haystack\<close> on two strings: a contiguous occurrence.\<close>

fun starts_with :: "string \<Rightarrow> string \<Rightarrow> bool" where
  "starts_with [] hay = True"
| "starts_with (c # cs) [] = False"
| "starts_with (c # cs) (h # hay) = (c = h \<and> starts_with cs hay)"

fun str_in :: "string \<Rightarrow> string \<Rightarrow> bool" where
  "str_in needle [] = (needle = [])"
| "str_in needle (h # hay) = (starts_with needle (h # hay) \<or> str_in needle hay)"

text \<open>
  One pass of \<^verbatim>\<open>for ach in potential\<close>. The score is computed and never read again.
\<close>

definition categorize ::
  "(string \<rightharpoonup> int) \<Rightarrow> (int \<rightharpoonup> progress_rec) \<Rightarrow> recommendations \<Rightarrow> achievement
     \<Rightarrow> py_error + recommendations" where
  "categorize am ip recs ach =
     (let progress_obj = ip (gw2_id ach);
          sc = score am ach;
          d = mk_ach_data progress_obj ach
      in case ratio_check progress_obj of
           Inl e \<Rightarrow> Inl e
         | Inr near \<Rightarrow>
             (let recs1 = (if near then recs\<lparr>nearly_complete := nearly_complete recs @ [d]\<rparr>
                           else recs)
              in Inr (if is_legendary ach then recs1\<lparr>legendary := legendary recs1 @ [d]\<rparr>
                      else if ''Pvp'' \<in> set (flags ach) then recs1\<lparr>pvp := pvp recs1 @ [d]\<rparr>
                      else if str_in ''Story'' (group_name ach)
                        then recs1\<lparr>story := story recs1 @ [d]\<rparr>
                      else if str_in ''Explorer'' (category_name ach)
                        then recs1\<lparr>exploration := exploration recs1 @ [d]\<rparr>
                      else recs1)))"

fun scan ::
  "(string \<rightharpoonup> int) \<Rightarrow> (int \<rightharpoonup> progress_rec) \<Rightarrow> recommendations \<Rightarrow> achievement list
     \<Rightarrow> py_error + recommendations" where
  "scan am ip recs [] = Inr recs"
| "scan am ip recs (ach # potential) =
     (case categorize am ip recs ach of
        Inl e \<Rightarrow> Inl e
      | Inr recs' \<Rightarrow> scan am ip recs' potential)"

definition empty_recommendations :: recommendations where
  "empty_recommendations =
     \<lparr> nearly_complete = [], legendary = [], pvp = [], story = [], exploration = [] \<rparr>"

text \<open>
  Steps 2 and 3 of \<^verbatim>\<open>RecommendationView.get\<close>: everything between the parsed
  snapshot and the response, as a function of the table and the snapshot.
\<close>

definition recommend :: "achievement list \<Rightarrow> progress_rec list \<Rightarrow> py_error + recommendations" where
  "recommend tbl user_achievements =
     (let done_ids = completed_ids user_achievements;
          history = filter_gw2_id_in tbl done_ids;
          am = affinity_map history;
          ip = in_progress user_achievements;
          potential = exclude_gw2_id_in tbl done_ids
      in scan am ip empty_recommendations potential)"

section \<open>The view\<close>

text \<open>
  What the request does to the outside world is kept as a log: the HTTP request to the
  progress API (with its authorization header) and the two catalog queries. Django
  evaluates a query set when the loop over it starts, which is the order of the source
  lines as well.
\<close>

datatype event =
  HttpGet string string
  | QueryFilterIn "int list"
  | QueryExcludeIn "int list"

datatype body = ErrorBody string | Buckets recommendations

datatype response = Response body nat

text \<open>
  The environment of a request: the progress API, as a function of the authorization
  header that answers with the parsed list or fails, and the rows of the catalog.
\<close>

record env =
  remote :: "string \<Rightarrow> py_error + progress_rec list"
  table :: "achievement list"

definition progress_url :: string where
  "progress_url = ''https://api.guildwars2.com/v2/account/achievements''"

text \<open>
  \<^verbatim>\<open>api_key = request.query_params.get('api_key')\<close> is \<open>None\<close> when the parameter
  is absent; \<^verbatim>\<open>not api_key\<close> also holds for the empty string.
\<close>

definition get :: "env \<Rightarrow> string option \<Rightarrow> event list \<times> (py_error + response)" where
  "get e api_key =
     (case api_key of
        None \<Rightarrow> ([], Inr (Response (ErrorBody ''API Key required'') 400))
      | Some k \<Rightarrow>
          if k = [] then ([], Inr (Response (ErrorBody ''API Key required'') 400))
          else
            (let headers = ''Bearer '' @ k
             in case remote e headers of
                  Inl err \<Rightarrow> ([HttpGet progress_url headers], Inl err)
                | Inr user_achievements \<Rightarrow>
                    (let done_ids = completed_ids user_achievements
                     in ([HttpGet progress_url headers, QueryFilterIn done_ids,
                          QueryExcludeIn done_ids],
                         case recommend (table e) user_achievements of
                           Inl err \<Rightarrow> Inl err
                         | Inr recs \<Rightarrow> Inr (Response (Buckets recs) 200)))))"

section \<open>The bucket predicates of the specification\<close>

text \<open>
  The predicates of the specification's bucket table, written from its words, to be
  compared with what the loop does. \<open>spec_ratio\<close> is ``current divided by max'', on
  the two numbers that the ratio check reads from the record.
\<close>

definition spec_ratio :: "progress_rec \<Rightarrow> rat" where
  "spec_ratio p = rat_of_int (ratio_current p) / rat_of_int (ratio_max p)"

definition spec_nearly_complete :: "(int \<rightharpoonup> progress_rec) \<Rightarrow> achievement \<Rightarrow> bool" where
  "spec_nearly_complete ip ach =
     (case ip (gw2_id ach) of None \<Rightarrow> False | Some p \<Rightarrow> spec_ratio p > 7 / 10)"

definition spec_legendary :: "achievement \<Rightarrow> bool" where
  "spec_legendary ach = is_legendary ach"

definition spec_pvp :: "achievement \<Rightarrow> bool" where
  "spec_pvp ach = (\<not> is_legendary ach \<and> ''Pvp'' \<in> set (flags ach))"

definition spec_story :: "achievement \<Rightarrow> bool" where
  "spec_story ach =
     (\<not> is_legendary ach \<and> ''Pvp'' \<notin> set (flags ach) \<and> str_in ''Story'' (group_name ach))"

definition spec_exploration :: "achievement \<Rightarrow> bool" where
  "spec_exploration ach =
     (\<not> is_legendary ach \<and> ''Pvp'' \<notin> set (flags ach) \<and> \<not> str_in ''Story'' (group_name ach)
      \<and> str_in ''Explorer'' (category_name ach))"

text \<open>The output entry of a catalog row, given the dictionary of records in progress.\<close>

definition entry_of :: "(int \<rightharpoonup> progress_rec) \<Rightarrow> achievement \<Rightarrow> ach_data" where
  "entry_of ip ach = mk_ach_data (ip (gw2_id ach)) ach"

text \<open>All entries of a result, whatever the bucket.\<close>

definition all_entries :: "recommendations \<Rightarrow> ach_data set" where
  "all_entries recs =
     set (nearly_complete recs) \<union> set (legendary recs) \<union> set (pvp recs) \<union> set (story recs)
       \<union> set (exploration recs)"

section \<open>Example data\<close>

text \<open>
  A catalog of five rows (the scenarios of the specification) and a snapshot for it: id 3
  at 8 of 10, id 4 done, id 5 at exactly 7 of 10, and a record for id 2 without
  \<^verbatim>\<open>max\<close> and \<^verbatim>\<open>done\<close>.
\<close>

definition ex_trek :: achievement where
  "ex_trek = \<lparr> gw2_id = 1, name = ''Maguuma Trek'', description = [], requirement = [],
     category_name = ''Explorer: Maguuma'', group_name = [], flags = [], tiers = [],
     rewards = [], is_legendary = False, community_priority = False \<rparr>"

definition ex_legend :: achievement where
  "ex_legend = \<lparr> gw2_id = 2, name = ''Legend'', description = [], requirement = [],
     category_name = ''Legendary Arms'', group_name = [], flags = [''Pvp''], tiers = [],
     rewards = [], is_legendary = True, community_priority = False \<rparr>"

definition ex_arena :: achievement where
  "ex_arena = \<lparr> gw2_id = 3, name = ''Arena Slayer'', description = [], requirement = [],
     category_name = ''Slayer'', group_name = [], flags = [''Pvp''], tiers = [],
     rewards = [], is_legendary = False, community_priority = False \<rparr>"

definition ex_slayer1 :: achievement where
  "ex_slayer1 = \<lparr> gw2_id = 4, name = ''Slayer I'', description = [], requirement = [],
     category_name = ''Slayer'', group_name = [], flags = [], tiers = [],
     rewards = [], is_legendary = False, community_priority = False \<rparr>"

definition ex_slayer2 :: achievement where
  "ex_slayer2 = \<lparr> gw2_id = 5, name = ''Slayer II'', description = [], requirement = [],
     category_name = ''Slayer'', group_name = ''Living Story'', flags = [], tiers = [],
     rewards = [], is_legendary = False, community_priority = True \<rparr>"

definition ex_table :: "achievement list" where
  "ex_table = [ex_trek, ex_legend, ex_arena, ex_slayer1, ex_slayer2]"

definition ex_no_max :: progress_rec where
  "ex_no_max = \<lparr> p_id = 2, p_current = Some 3, p_max = None, p_done = None \<rparr>"

definition ex_snapshot :: "progress_rec list" where
  "ex_snapshot =
     [\<lparr> p_id = 3, p_current = Some 8, p_max = Some 10, p_done = Some False \<rparr>,
      \<lparr> p_id = 4, p_current = Some 1, p_max = Some 1, p_done = Some True \<rparr>,
      \<lparr> p_id = 5, p_current = Some 7, p_max = Some 10, p_done = Some False \<rparr>,
      ex_no_max]"

definition ex_zero_max :: progress_rec where
  "ex_zero_max = \<lparr> p_id = 1, p_current = Some 0, p_max = Some 0, p_done = Some False \<rparr>"

definition ex_trek_entry :: ach_data where
  "ex_trek_entry = \<lparr> ad_id = 1, ad_name = ''Maguuma Trek'', ad_requirement = [],
     ad_category = ''Explorer: Maguuma'', ad_progress = 0, ad_max = 1 \<rparr>"

definition ex_legend_entry :: ach_data where
  "ex_legend_entry = \<lparr> ad_id = 2, ad_name = ''Legend'', ad_requirement = [],
     ad_category = ''Legendary Arms'', ad_progress = 3, ad_max = 0 \<rparr>"

definition ex_arena_entry :: ach_data where
  "ex_arena_entry = \<lparr> ad_id = 3, ad_name = ''Arena Slayer'', ad_requirement = [],
     ad_category = ''Slayer'', ad_progress = 8, ad_max = 10 \<rparr>"

definition ex_slayer2_entry :: ach_data where
  "ex_slayer2_entry = \<lparr> ad_id = 5, ad_name = ''Slayer II'', ad_requirement = [],
     ad_category = ''Slayer'', ad_progress = 7, ad_max = 10 \<rparr>"

definition ex_result :: recommendations where
  "ex_result = \<lparr> nearly_complete = [ex_arena_entry, ex_legend_entry],
     legendary = [ex_legend_entry], pvp = [ex_arena_entry], story = [ex_slayer2_entry],
     exploration = [ex_trek_entry] \<rparr>"

definition ex_env :: env where
  "ex_env = \<lparr> remote = (\<lambda>headers. Inr ex_snapshot), table = ex_table \<rparr>"

definition ex_zero_env :: env where
  "ex_zero_env = \<lparr> remote = (\<lambda>headers. Inr [ex_zero_max]), table = ex_table \<rparr>"

section \<open>The two dictionaries\<close>





lemma affinity_fold:
  "foldl (\<lambda>m ach. m(category_name ach \<mapsto> get_default (m (category_name ach)) 0 + 1)) m0 xs c =
     (if filter (\<lambda>a. category_name a = c) xs = [] then m0 c
      else Some (get_default (m0 c) 0 + int (length (filter (\<lambda>a. category_name a = c) xs))))"
proof (induction xs rule: rev_induct)
  case Nil
  show ?case by simp
next
  case (snoc x xs)
  then show ?case by (auto simp: get_default_def)
qed

lemma affinity_map_lookup:
  "affinity_map history c =
     (if filter (\<lambda>a. category_name a = c) history = [] then None
      else Some (int (length (filter (\<lambda>a. category_name a = c) history))))"
  unfolding affinity_map_def affinity_fold by (simp add: get_default_def)

section \<open>The loop\<close>

lemma ratio_check_Inl: "ratio_check po = Inl e \<Longrightarrow> e = ZeroDivisionError"
  by (auto simp: ratio_check_def Let_def split: option.splits if_splits)

lemma ratio_check_Inr:
  "ratio_check (ip (gw2_id ach)) = Inr b \<Longrightarrow> b = spec_nearly_complete ip ach"
  by (auto simp: ratio_check_def spec_nearly_complete_def spec_ratio_def Let_def
      split: option.splits if_splits)

lemma categorize_Inl:
  "categorize am ip recs ach = Inl e \<longleftrightarrow> ratio_check (ip (gw2_id ach)) = Inl e"
  by (simp add: categorize_def Let_def split: sum.splits)

lemma categorize_Inr:
  assumes "categorize am ip recs ach = Inr recs'"
  shows "nearly_complete recs' =
           nearly_complete recs @ map (entry_of ip) (filter (spec_nearly_complete ip) [ach])"
    and "legendary recs' = legendary recs @ map (entry_of ip) (filter spec_legendary [ach])"
    and "pvp recs' = pvp recs @ map (entry_of ip) (filter spec_pvp [ach])"
    and "story recs' = story recs @ map (entry_of ip) (filter spec_story [ach])"
    and "exploration recs' =
           exploration recs @ map (entry_of ip) (filter spec_exploration [ach])"
proof -
  from assms obtain b where rc: "ratio_check (ip (gw2_id ach)) = Inr b"
    by (cases "ratio_check (ip (gw2_id ach))") (simp_all add: categorize_def Let_def)
  then have b: "b = spec_nearly_complete ip ach" by (rule ratio_check_Inr)
  from assms rc b show "nearly_complete recs' =
           nearly_complete recs @ map (entry_of ip) (filter (spec_nearly_complete ip) [ach])"
    by (auto simp: categorize_def Let_def entry_of_def)
  from assms rc b show "legendary recs' = legendary recs @ map (entry_of ip) (filter spec_legendary [ach])"
    by (auto simp: categorize_def Let_def entry_of_def spec_legendary_def)
  from assms rc b show "pvp recs' = pvp recs @ map (entry_of ip) (filter spec_pvp [ach])"
    by (auto simp: categorize_def Let_def entry_of_def spec_pvp_def)
  from assms rc b show "story recs' = story recs @ map (entry_of ip) (filter spec_story [ach])"
    by (auto simp: categorize_def Let_def entry_of_def spec_story_def)
  from assms rc b show "exploration recs' =
           exploration recs @ map (entry_of ip) (filter spec_exploration [ach])"
    by (auto simp: categorize_def Let_def entry_of_def spec_exploration_def)
qed

lemma scan_Inr:
  "scan am ip recs potential = Inr recs' \<Longrightarrow>
     nearly_complete recs' =
       nearly_complete recs @ map (entry_of ip) (filter (spec_nearly_complete ip) potential) \<and>
     legendary recs' = legendary recs @ map (entry_of ip) (filter spec_legendary potential) \<and>
     pvp recs' = pvp recs @ map (entry_of ip) (filter spec_pvp potential) \<and>
     story recs' = story recs @ map (entry_of ip) (filter spec_story potential) \<and>
     exploration recs' = exploration recs @ map (entry_of ip) (filter spec_exploration potential)"
proof (induction potential arbitrary: recs)
  case Nil
  then show ?case by simp
next
  case (Cons ach potential)
  from Cons.prems obtain r1 where c: "categorize am ip recs ach = Inr r1"
    and s: "scan am ip r1 potential = Inr recs'"
    by (auto split: sum.splits)
  note step = categorize_Inr [OF c]
  note rest = Cons.IH [OF s]
  show ?case
    unfolding step rest [THEN conjunct1] by (simp add: rest step)
qed

lemma scan_Inl_iff:
  "(\<exists>e. scan am ip recs potential = Inl e) \<longleftrightarrow>
     (\<exists>ach \<in> set potential. ratio_check (ip (gw2_id ach)) = Inl ZeroDivisionError)"
proof (induction potential arbitrary: recs)
  case Nil
  show ?case by simp
next
  case (Cons ach potential)
  show ?case
  proof (cases "categorize am ip recs ach")
    case (Inl e)
    then have "ratio_check (ip (gw2_id ach)) = Inl ZeroDivisionError"
      using categorize_Inl ratio_check_Inl by blast
    with Inl show ?thesis by simp
  next
    case (Inr r1)
    then have "\<not> ratio_check (ip (gw2_id ach)) = Inl ZeroDivisionError"
      using categorize_Inl [of am ip recs ach ZeroDivisionError] by simp
    with Inr Cons.IH [of r1] show ?thesis by simp
  qed
qed

lemma scan_error: "scan am ip recs potential = Inl e \<Longrightarrow> e = ZeroDivisionError"
proof (induction potential arbitrary: recs)
  case Nil
  then show ?case by simp
next
  case (Cons ach potential)
  then show ?case
    by (auto split: sum.splits simp: categorize_Inl dest: ratio_check_Inl)
qed

section \<open>The catalog queries and the result of a request\<close>

lemma ratio_check_Inr_iff:
  "ratio_check po = Inr b \<longleftrightarrow>
     (case po of None \<Rightarrow> \<not> b | Some p \<Rightarrow> ratio_max p \<noteq> 0 \<and> b = (spec_ratio p > 7 / 10))"
  by (auto simp: ratio_check_def spec_ratio_def split: option.splits)

lemma set_objects: "set (objects tbl) = set tbl"
  by (simp add: objects_def)

lemma set_exclude:
  "set (exclude_gw2_id_in tbl ids) = {ach \<in> set tbl. gw2_id ach \<notin> set ids}"
  by (auto simp: exclude_gw2_id_in_def set_objects)

lemma set_filter_in:
  "set (filter_gw2_id_in tbl ids) = {ach \<in> set tbl. gw2_id ach \<in> set ids}"
  by (auto simp: filter_gw2_id_in_def set_objects)


lemma entry_of_simps:
  "ad_id (entry_of ip ach) = gw2_id ach"
  "ad_name (entry_of ip ach) = name ach"
  "ad_requirement (entry_of ip ach) = requirement ach"
  "ad_category (entry_of ip ach) = category_name ach"
  by (simp_all add: entry_of_def mk_ach_data_def)

lemma recommend_Inr:
  assumes "recommend tbl ua = Inr recs"
  defines "ip \<equiv> in_progress ua"
  defines "potential \<equiv> exclude_gw2_id_in tbl (completed_ids ua)"
  shows "nearly_complete recs = map (entry_of ip) (filter (spec_nearly_complete ip) potential)"
    and "legendary recs = map (entry_of ip) (filter spec_legendary potential)"
    and "pvp recs = map (entry_of ip) (filter spec_pvp potential)"
    and "story recs = map (entry_of ip) (filter spec_story potential)"
    and "exploration recs = map (entry_of ip) (filter spec_exploration potential)"
  using scan_Inr [of "affinity_map (filter_gw2_id_in tbl (completed_ids ua))" ip
      empty_recommendations potential recs] assms
  by (simp_all add: recommend_def Let_def empty_recommendations_def)

lemma all_entries_subset:
  assumes "recommend tbl ua = Inr recs"
  shows "all_entries recs \<subseteq>
           entry_of (in_progress ua) ` set (exclude_gw2_id_in tbl (completed_ids ua))"
  unfolding all_entries_def recommend_Inr [OF assms] by auto










lemma set_completed_ids:
  "set (completed_ids ua) = {p_id a | a. a \<in> set ua \<and> p_done a = Some True}"
  by (auto simp: completed_ids_def is_done_def)

lemma length_filter_objects: "length (filter P (objects tbl)) = length (filter P tbl)"
  by (simp add: objects_def filter_sort)

lemma filter_filter_in:
  "filter (\<lambda>a. category_name a = c) (filter_gw2_id_in tbl ids) =
     filter (\<lambda>a. gw2_id a \<in> set ids \<and> category_name a = c) (objects tbl)"
  by (simp add: filter_gw2_id_in_def conj_commute)





section \<open>The example, evaluated\<close>

lemmas ex_defs = ex_trek_def ex_legend_def ex_arena_def ex_slayer1_def ex_slayer2_def
  ex_table_def ex_no_max_def ex_snapshot_def ex_zero_max_def ex_trek_entry_def
  ex_legend_entry_def ex_arena_entry_def ex_slayer2_entry_def ex_result_def

lemma ex_completed: "completed_ids ex_snapshot = [4]"
  by (simp add: completed_ids_def is_done_def ex_defs)

lemma ex_objects: "objects ex_table = [ex_arena, ex_legend, ex_trek, ex_slayer1, ex_slayer2]"
  by (simp add: objects_def ex_defs)

lemma ex_potential: "exclude_gw2_id_in ex_table [4] = [ex_arena, ex_legend, ex_trek, ex_slayer2]"
  by (simp add: exclude_gw2_id_in_def ex_objects) (simp add: ex_defs)

lemma ex_recommend: "recommend ex_table ex_snapshot = Inr ex_result"
  by (simp add: recommend_def ex_completed ex_potential Let_def)
     (simp add: ex_defs in_progress_def is_done_def categorize_def ratio_check_def ratio_max_def
        ratio_current_def get_default_def mk_ach_data_def empty_recommendations_def Let_def)

lemma ex_zero: "recommend ex_table [ex_zero_max] = Inl ZeroDivisionError"
  by (simp add: recommend_def Let_def completed_ids_def exclude_gw2_id_in_def objects_def
        ex_defs in_progress_def is_done_def categorize_def ratio_check_def ratio_max_def
        ratio_current_def get_default_def mk_ach_data_def empty_recommendations_def)

lemma ex_all_entries:
  "all_entries ex_result = {ex_arena_entry, ex_legend_entry, ex_slayer2_entry, ex_trek_entry}"
  by (auto simp: all_entries_def ex_result_def)

lemma ex_in_progress:
  "in_progress ex_snapshot 1 = None"
  "in_progress ex_snapshot 2 = Some ex_no_max"
  "in_progress ex_snapshot 3 =
     Some \<lparr> p_id = 3, p_current = Some 8, p_max = Some 10, p_done = Some False \<rparr>"
  by (simp_all add: in_progress_def is_done_def ex_snapshot_def ex_no_max_def)

section \<open>Claims\<close>





text \<open>
  C3. The affinity map is the per-category count of the catalog rows whose id is among the
  ids of the records marked done: its value at a category is the number of such rows with
  that category, a category without such a row is absent from the map, and with no
  completed id the map is empty and every lookup with default 0 gives 0.
\<close>

theorem affinity_map_counts_completed:
  "affinity_map (filter_gw2_id_in tbl (completed_ids ua)) c =
     (let n = length (filter (\<lambda>ach. gw2_id ach \<in> set (completed_ids ua) \<and> category_name ach = c) tbl)
      in if n = 0 then None else Some (int n)) \<and>
   set (completed_ids ua) = {p_id a | a. a \<in> set ua \<and> p_done a = Some True} \<and>
   (completed_ids ua = [] \<longrightarrow>
      affinity_map (filter_gw2_id_in tbl (completed_ids ua)) = Map.empty \<and>
      (\<forall>ach. get_default (affinity_map (filter_gw2_id_in tbl (completed_ids ua)) (category_name ach)) 0 = 0))"
proof -
  let ?h = "filter_gw2_id_in tbl (completed_ids ua)"
  let ?P = "\<lambda>ach. gw2_id ach \<in> set (completed_ids ua) \<and> category_name ach = c"
  have len: "length (filter (\<lambda>a. category_name a = c) ?h) = length (filter ?P tbl)"
    by (simp add: filter_filter_in length_filter_objects)
  have 1: "affinity_map ?h c =
     (let n = length (filter ?P tbl) in if n = 0 then None else Some (int n))"
    unfolding affinity_map_lookup Let_def len [symmetric] by simp
  have 3: "affinity_map ?h = Map.empty \<and>
      (\<forall>ach. get_default (affinity_map ?h (category_name ach)) 0 = 0)"
    if "completed_ids ua = []"
  proof -
    from that have "?h = []" by (simp add: filter_gw2_id_in_def)
    then show ?thesis by (simp add: affinity_map_def get_default_def)
  qed
  from 1 set_completed_ids [of ua] 3 show ?thesis by blast
qed

text \<open>
  The example: id 4 is done and is a Slayer row, so Slayer counts 1 and no other category
  is in the map; an empty snapshot gives the empty map.
\<close>

theorem affinity_map_counts_completed_witness:
  "affinity_map (filter_gw2_id_in ex_table (completed_ids ex_snapshot)) ''Slayer'' = Some 1 \<and>
   affinity_map (filter_gw2_id_in ex_table (completed_ids ex_snapshot)) ''Explorer: Maguuma'' = None \<and>
   completed_ids [] = [] \<and>
   affinity_map (filter_gw2_id_in ex_table (completed_ids [])) = Map.empty \<and>
   get_default (affinity_map (filter_gw2_id_in ex_table (completed_ids [])) (category_name ex_slayer2)) 0 = 0"
proof -
  have e: "completed_ids [] = []" by (simp add: completed_ids_def)
  have n1: "length (filter (\<lambda>ach. gw2_id ach \<in> set (completed_ids ex_snapshot) \<and>
      category_name ach = ''Slayer'') ex_table) = 1"
    by (simp add: ex_completed) (simp add: ex_defs)
  have n0: "length (filter (\<lambda>ach. gw2_id ach \<in> set (completed_ids ex_snapshot) \<and>
      category_name ach = ''Explorer: Maguuma'') ex_table) = 0"
    by (simp add: ex_completed) (simp add: ex_defs)
  note t1 = affinity_map_counts_completed [of ex_table ex_snapshot "''Slayer''", THEN conjunct1]
  note t0 = affinity_map_counts_completed [of ex_table ex_snapshot "''Explorer: Maguuma''",
      THEN conjunct1]
  have 1: "affinity_map (filter_gw2_id_in ex_table (completed_ids ex_snapshot)) ''Slayer'' = Some 1"
    unfolding t1 n1 by simp
  have 2: "affinity_map (filter_gw2_id_in ex_table (completed_ids ex_snapshot))
      ''Explorer: Maguuma'' = None"
    unfolding t0 n0 by simp
  from affinity_map_counts_completed [of ex_table "[]" "''Slayer''"] e 1 2
  show ?thesis by blast
qed

text \<open>
  C4. The score of an entry with community priority is the score of the same entry
  without it plus exactly 10, and the score without it is the affinity map's value at the
  entry's category, 0 when the category is absent.
\<close>

theorem score_community_priority:
  "score am (ach\<lparr>community_priority := True\<rparr>) =
     score am (ach\<lparr>community_priority := False\<rparr>) + 10 \<and>
   score am (ach\<lparr>community_priority := False\<rparr>) =
     (case am (category_name ach) of None \<Rightarrow> 0 | Some n \<Rightarrow> n)"
  by (simp add: score_def get_default_def Let_def)

text \<open>
  The example: with one Slayer completion the Slayer row with community priority scores
  11, and 1 without the priority.
\<close>

theorem score_community_priority_witness:
  "score (affinity_map (filter_gw2_id_in ex_table (completed_ids ex_snapshot))) ex_slayer2 = 11 \<and>
   score (affinity_map (filter_gw2_id_in ex_table (completed_ids ex_snapshot)))
     (ex_slayer2\<lparr>community_priority := False\<rparr>) = 1"
proof -
  let ?am = "affinity_map (filter_gw2_id_in ex_table (completed_ids ex_snapshot))"
  have am: "?am ''Slayer'' = Some 1"
    by (simp add: affinity_map_lookup filter_filter_in ex_completed ex_objects) (simp add: ex_defs)
  have t: "ex_slayer2\<lparr>community_priority := True\<rparr> = ex_slayer2"
    and c: "category_name ex_slayer2 = ''Slayer''"
    by (simp_all add: ex_slayer2_def)
  from score_community_priority [of ?am ex_slayer2] am show ?thesis
    by (simp add: t c)
qed



text \<open>
  C6. No entry of any of the five buckets has the id of a record marked done.
\<close>

theorem completed_never_recommended:
  assumes "recommend tbl ua = Inr recs" and "d \<in> all_entries recs"
  shows "ad_id d \<notin> set (completed_ids ua) \<and>
         (\<forall>a \<in> set ua. p_done a = Some True \<longrightarrow> p_id a \<noteq> ad_id d)"
proof -
  from all_entries_subset [OF assms(1)] assms(2)
  obtain ach where ach: "ach \<in> set (exclude_gw2_id_in tbl (completed_ids ua))"
    and d: "d = entry_of (in_progress ua) ach" by auto
  from ach have "gw2_id ach \<notin> set (completed_ids ua)" by (simp add: set_exclude)
  then have 1: "ad_id d \<notin> set (completed_ids ua)" by (simp add: d entry_of_simps)
  then show ?thesis by (auto simp: set_completed_ids)
qed

text \<open>
  The example: row 4 is in the catalog and done, and no entry of the result has id 4.
\<close>

theorem completed_never_recommended_witness:
  "recommend ex_table ex_snapshot = Inr ex_result \<and>
   ex_slayer1 \<in> set ex_table \<and> gw2_id ex_slayer1 \<in> set (completed_ids ex_snapshot) \<and>
   ex_arena_entry \<in> all_entries ex_result \<and>
   ad_id ex_arena_entry \<notin> set (completed_ids ex_snapshot) \<and>
   gw2_id ex_slayer1 \<notin> ad_id ` all_entries ex_result"
proof -
  have 1: "ex_slayer1 \<in> set ex_table" by (simp add: ex_table_def)
  have 2: "gw2_id ex_slayer1 \<in> set (completed_ids ex_snapshot)"
    by (simp add: ex_completed ex_slayer1_def)
  have 3: "ex_arena_entry \<in> all_entries ex_result" by (simp add: ex_all_entries)
  have 4: "gw2_id ex_slayer1 \<notin> ad_id ` all_entries ex_result"
  proof
    assume "gw2_id ex_slayer1 \<in> ad_id ` all_entries ex_result"
    then obtain d where d: "d \<in> all_entries ex_result" and "ad_id d = gw2_id ex_slayer1"
      by auto
    with completed_never_recommended [OF ex_recommend d] 2 show False by simp
  qed
  from completed_never_recommended [OF ex_recommend 3] ex_recommend 1 2 3 4
  show ?thesis by blast
qed

text \<open>
  C7. Without an API key (absent, or empty) the view answers at once with status 400 and
  the message that a key is required; no HTTP request and no catalog query has been made,
  whatever the environment.
\<close>

theorem missing_api_key:
  "get e None = ([], Inr (Response (ErrorBody ''API Key required'') 400)) \<and>
   get e (Some []) = ([], Inr (Response (ErrorBody ''API Key required'') 400))"
  by (simp add: get_def)

text \<open>
  The example: without a key the log is empty; with a key it holds the request and the two
  queries.
\<close>

theorem missing_api_key_witness:
  "get ex_env None = ([], Inr (Response (ErrorBody ''API Key required'') 400)) \<and>
   fst (get ex_env (Some ''key'')) =
     [HttpGet progress_url ''Bearer key'', QueryFilterIn [4], QueryExcludeIn [4]]"
proof -
  have "fst (get ex_env (Some ''key'')) =
     [HttpGet progress_url ''Bearer key'', QueryFilterIn [4], QueryExcludeIn [4]]"
    by (simp add: get_def ex_env_def ex_completed Let_def)
  with missing_api_key [of ex_env] show ?thesis by simp
qed

text \<open>
  C8. A record in progress with \<^verbatim>\<open>max\<close> equal to 0, for a catalog row that is scanned,
  makes the ratio check raise \<^verbatim>\<open>ZeroDivisionError\<close>: the division has no guard, the scan
  yields the error and the view gives no response.
\<close>

theorem zero_max_raises:
  assumes "k \<noteq> []" and "remote e (''Bearer '' @ k) = Inr ua"
    and "ach \<in> set (table e)" and "gw2_id ach \<notin> set (completed_ids ua)"
    and "in_progress ua (gw2_id ach) = Some p" and "p_max p = Some 0"
  shows "ratio_check (Some p) = Inl ZeroDivisionError \<and>
         recommend (table e) ua = Inl ZeroDivisionError \<and>
         snd (get e (Some k)) = Inl ZeroDivisionError"
proof -
  let ?pot = "exclude_gw2_id_in (table e) (completed_ids ua)"
  have rc: "ratio_check (Some p) = Inl ZeroDivisionError"
    using assms(6) by (simp add: ratio_check_def ratio_max_def get_default_def)
  from assms(3,4) have "ach \<in> set ?pot" by (simp add: set_exclude)
  moreover from rc assms(5)
  have "ratio_check (in_progress ua (gw2_id ach)) = Inl ZeroDivisionError" by simp
  ultimately
  have "\<exists>a \<in> set ?pot. ratio_check (in_progress ua (gw2_id a)) = Inl ZeroDivisionError"
    by (rule bexI [rotated])
  then obtain err where "scan (affinity_map (filter_gw2_id_in (table e) (completed_ids ua)))
      (in_progress ua) empty_recommendations ?pot = Inl err"
    using scan_Inl_iff by blast
  then have r: "recommend (table e) ua = Inl ZeroDivisionError"
    using scan_error by (fastforce simp: recommend_def Let_def)
  with assms(1,2) have "snd (get e (Some k)) = Inl ZeroDivisionError"
    by (simp add: get_def Let_def)
  with rc r show ?thesis by simp
qed

text \<open>
  The example: a snapshot with the single record 0 of 0 for id 1.
\<close>

theorem zero_max_raises_witness:
  "''key'' \<noteq> [] \<and> remote ex_zero_env (''Bearer '' @ ''key'') = Inr [ex_zero_max] \<and>
   ex_trek \<in> set (table ex_zero_env) \<and> gw2_id ex_trek \<notin> set (completed_ids [ex_zero_max]) \<and>
   in_progress [ex_zero_max] (gw2_id ex_trek) = Some ex_zero_max \<and> p_max ex_zero_max = Some 0 \<and>
   recommend (table ex_zero_env) [ex_zero_max] = Inl ZeroDivisionError \<and>
   snd (get ex_zero_env (Some ''key'')) = Inl ZeroDivisionError"
proof -
  have 1: "''key'' \<noteq> []" by simp
  have 2: "remote ex_zero_env (''Bearer '' @ ''key'') = Inr [ex_zero_max]"
    by (simp add: ex_zero_env_def)
  have 3: "ex_trek \<in> set (table ex_zero_env)" by (simp add: ex_zero_env_def ex_table_def)
  have 4: "gw2_id ex_trek \<notin> set (completed_ids [ex_zero_max])"
    by (simp add: completed_ids_def is_done_def ex_zero_max_def)
  have 5: "in_progress [ex_zero_max] (gw2_id ex_trek) = Some ex_zero_max"
    by (simp add: in_progress_def is_done_def ex_zero_max_def ex_trek_def)
  have 6: "p_max ex_zero_max = Some 0" by (simp add: ex_zero_max_def)
  from zero_max_raises [OF 1 2 3 4 5 6] 1 2 3 4 5 6 show ?thesis by blast
qed



text \<open>
  C10, as stated: for a found record without \<^verbatim>\<open>max\<close>, neither the default of the output
  projection nor the default of the ratio check equals the default for an absent record.
  This fails for the ratio check: its default 1 is the \<open>max\<close> of an entry without a record.
\<close>

theorem missing_max_defaults_counterexample:
  "\<not> (ad_max (mk_ach_data (Some ex_no_max) ex_legend) \<noteq> ad_max (mk_ach_data None ex_legend) \<and>
      ratio_max ex_no_max \<noteq> ad_max (mk_ach_data None ex_legend))"
  by (simp add: ratio_max_def get_default_def mk_ach_data_def ex_no_max_def)

text \<open>
  C10, amended. For an entry of the result whose record in progress has no \<^verbatim>\<open>max\<close>, the
  entry's \<open>max\<close> is 0, while the ratio check divides by 1, so the entry is in
  \<open>nearly_complete\<close> exactly when its current exceeds 0.7. The two defaults differ; the
  output's 0 differs from the \<open>max\<close> of an entry without a record, which is 1, and the
  ratio check's 1 equals it.
\<close>

theorem missing_max_defaults:
  assumes "recommend tbl ua = Inr recs" and "d \<in> all_entries recs"
    and "in_progress ua (ad_id d) = Some p" and "p_max p = None"
  shows "ad_max d = 0 \<and> ratio_max p = 1 \<and>
         ratio_check (Some p) = Inr (rat_of_int (ratio_current p) / 1 > 7 / 10) \<and>
         (d \<in> set (nearly_complete recs) \<longleftrightarrow> rat_of_int (ratio_current p) / 1 > 7 / 10) \<and>
         ad_max d \<noteq> ratio_max p \<and>
         (\<forall>ach. ad_max d \<noteq> ad_max (mk_ach_data None ach) \<and>
                ratio_max p = ad_max (mk_ach_data None ach))"
proof -
  let ?ip = "in_progress ua"
  let ?pot = "exclude_gw2_id_in tbl (completed_ids ua)"
  from all_entries_subset [OF assms(1)] assms(2)
  obtain ach where ach: "ach \<in> set ?pot" and d: "d = entry_of ?ip ach" by auto
  have id: "gw2_id ach = ad_id d" by (simp add: d entry_of_simps)
  have rm: "ratio_max p = 1" using assms(4) by (simp add: ratio_max_def get_default_def)
  have mx: "ad_max d = 0"
    using assms(3,4) unfolding id [symmetric]
    by (simp add: d entry_of_def mk_ach_data_def get_default_def)
  have rc: "ratio_check (Some p) = Inr (rat_of_int (ratio_current p) / 1 > 7 / 10)"
    by (simp add: ratio_check_def rm)
  have sn: "spec_nearly_complete ?ip a \<longleftrightarrow> rat_of_int (ratio_current p) / 1 > 7 / 10"
    if "gw2_id a = ad_id d" for a
    using that assms(3) by (simp add: spec_nearly_complete_def spec_ratio_def rm)
  have "d \<in> set (nearly_complete recs) \<longleftrightarrow>
      (\<exists>a \<in> set ?pot. spec_nearly_complete ?ip a \<and> entry_of ?ip a = d)"
    unfolding recommend_Inr(1) [OF assms(1)] by auto
  also have "\<dots> \<longleftrightarrow> rat_of_int (ratio_current p) / 1 > 7 / 10"
  proof
    assume "\<exists>a \<in> set ?pot. spec_nearly_complete ?ip a \<and> entry_of ?ip a = d"
    then obtain a where "spec_nearly_complete ?ip a" and "entry_of ?ip a = d" by blast
    then have "gw2_id a = ad_id d" using entry_of_simps(1) [of ?ip a] by simp
    with \<open>spec_nearly_complete ?ip a\<close> sn show "rat_of_int (ratio_current p) / 1 > 7 / 10"
      by blast
  next
    assume "rat_of_int (ratio_current p) / 1 > 7 / 10"
    with sn [OF id] have "spec_nearly_complete ?ip ach" by simp
    with ach d show "\<exists>a \<in> set ?pot. spec_nearly_complete ?ip a \<and> entry_of ?ip a = d" by blast
  qed
  finally have nc: "d \<in> set (nearly_complete recs) \<longleftrightarrow> rat_of_int (ratio_current p) / 1 > 7 / 10" .
  have ab: "ad_max (mk_ach_data None a) = 1" for a by (simp add: mk_ach_data_def)
  from mx rm rc nc ab show ?thesis by simp
qed

text \<open>
  The example: the record of id 2 has current 3 and no \<^verbatim>\<open>max\<close>; its entry carries
  \<open>max\<close> 0 and is in \<open>nearly_complete\<close>.
\<close>

theorem missing_max_defaults_witness:
  "recommend ex_table ex_snapshot = Inr ex_result \<and> ex_legend_entry \<in> all_entries ex_result \<and>
   in_progress ex_snapshot (ad_id ex_legend_entry) = Some ex_no_max \<and> p_max ex_no_max = None \<and>
   ad_max ex_legend_entry = 0 \<and> ratio_max ex_no_max = 1 \<and>
   ex_legend_entry \<in> set (nearly_complete ex_result)"
proof -
  have m: "ex_legend_entry \<in> all_entries ex_result" by (simp add: ex_all_entries)
  have ip: "in_progress ex_snapshot (ad_id ex_legend_entry) = Some ex_no_max"
    by (simp add: ex_legend_entry_def ex_in_progress)
  have nm: "p_max ex_no_max = None" by (simp add: ex_no_max_def)
  have r: "rat_of_int (ratio_current ex_no_max) / 1 > 7 / 10"
    by (simp add: ratio_current_def get_default_def ex_no_max_def)
  from missing_max_defaults [OF ex_recommend m ip nm] r ex_recommend m ip nm
  show ?thesis by blast
qed

end
